theory Spec2Isabelle
  imports Complex_Main
begin

section \<open>Dynasty format analyzer: scripts/analyze\_dynasty\_format.py\<close>

text \<open>
  A shallow embedding of the script. Python \<open>str\<close> values are \<open>string\<close>s, \<open>None\<close> is
  the \<open>None\<close> of an option type, a \<open>Path\<close> is the list of its components, and every
  \<open>print\<close> call is one event of the datatype \<open>out\<close>, so a function that prints returns
  the list of its events together with its value. Calls into the Python library
  (\<open>pathlib\<close>, \<open>zipfile\<close>, \<open>bytes.decode\<close>, \<open>ElementTree.fromstring\<close>) are fields of
  the record \<open>env\<close>; a call that raises returns \<open>None\<close> there.
\<close>

subsection \<open>Constants\<close>

definition DIADOCHI_NATIONS :: "string set" where
  "DIADOCHI_NATIONS = {''NATION_SELEUCUS'', ''NATION_ANTIGONUS'', ''NATION_PTOLEMY''}"

definition EXPECTED_MAPPINGS :: "(string \<times> (string \<times> string)) list" where
  "EXPECTED_MAPPINGS =
     [(''NATION_SELEUCUS'', (''NATION_GREECE'', ''DYNASTY_SELEUCID'')),
      (''NATION_ANTIGONUS'', (''NATION_GREECE'', ''DYNASTY_ANTIGONID'')),
      (''NATION_PTOLEMY'', (''NATION_GREECE'', ''DYNASTY_PTOLEMY''))]"

text \<open>The tuple of line 105 and line 174.\<close>

definition DIADOCHI_DYNASTIES :: "string set" where
  "DIADOCHI_DYNASTIES = {''DYNASTY_SELEUCID'', ''DYNASTY_ANTIGONID'', ''DYNASTY_PTOLEMY''}"

text \<open>\<open>v in S\<close> for a value that is a \<open>str\<close> or \<open>None\<close>: \<open>None\<close> is in no set of strings.\<close>

definition py_in :: "string option \<Rightarrow> string set \<Rightarrow> bool" where
  "py_in v S = (case v of None \<Rightarrow> False | Some s \<Rightarrow> s \<in> S)"

text \<open>Truthiness of a value that is a \<open>str\<close> or \<open>None\<close>: \<open>None\<close> and \<open>''\<close> are falsy.\<close>

definition truthy :: "string option \<Rightarrow> bool" where
  "truthy v = (case v of None \<Rightarrow> False | Some s \<Rightarrow> s \<noteq> [])"

subsection \<open>Paths\<close>

type_synonym path = "string list"

definition path_name :: "path \<Rightarrow> string" where
  "path_name p = (if p = [] then [] else last p)"

text \<open>\<open>str.rfind('.')\<close>: the index of the last dot, \<open>None\<close> for Python's \<open>-1\<close>.\<close>

definition rfind_dot :: "string \<Rightarrow> nat option" where
  "rfind_dot s =
     (if CHR ''.'' \<in> set s
      then Some (length s - 1 - length (takeWhile (\<lambda>c. c \<noteq> CHR ''.'') (rev s)))
      else None)"

text \<open>\<open>Path.suffix\<close>: \<open>name[i:]\<close> when \<open>0 < i < len(name) - 1\<close> for \<open>i = name.rfind('.')\<close>,
  and \<open>''\<close> otherwise.\<close>

definition path_suffix :: "path \<Rightarrow> string" where
  "path_suffix p =
     (let name = path_name p in
      case rfind_dot name of
        None \<Rightarrow> []
      | Some i \<Rightarrow> if 0 < i \<and> i + 1 < length name then drop i name else [])"

definition endswith :: "string \<Rightarrow> string \<Rightarrow> bool" where
  "endswith s suf = (length suf \<le> length s \<and> drop (length s - length suf) s = suf)"

subsection \<open>The element tree\<close>

datatype element = Element (tag: string) (attrib: "(string \<times> string) list") (children: "element list")

text \<open>\<open>elem.get(key)\<close>: the attribute's value, \<open>None\<close> when it is missing.\<close>

definition get :: "element \<Rightarrow> string \<Rightarrow> string option" where
  "get e k = map_of (attrib e) k"

text \<open>\<open>elem.iter()\<close>: the element and everything below it, in document order.\<close>

fun iter :: "element \<Rightarrow> element list" where
  "iter (Element t a cs) = Element t a cs # concat (map iter cs)"

text \<open>\<open>root.findall('.//Player')\<close>: ElementPath evaluates \<open>//\<close> followed by a tag on an
  element as \<open>for e in elem.iter(tag): if e is not elem: yield e\<close>, that is, the
  elements with that tag on all levels beneath the element, in document order.\<close>

definition findall_descendants :: "element \<Rightarrow> string \<Rightarrow> element list" where
  "findall_descendants root_elem t =
     filter (\<lambda>e. tag e = t) (concat (map iter (children root_elem)))"

subsection \<open>The environment\<close>

type_synonym bytes = "char list"

datatype file_kind = RegularFile | Directory | OtherFile

record stat_result =
  st_kind :: file_kind
  st_mtime :: real

text \<open>An open \<open>ZipFile\<close>: \<open>namelist()\<close> and \<open>read(name)\<close>, which is \<open>None\<close> when it raises.\<close>

record zip_file =
  namelist :: "string list"
  read_member :: "string \<Rightarrow> bytes option"

record env =
  home :: path
  stat :: "path \<Rightarrow> stat_result option"
  rglob_zip :: "path \<Rightarrow> path list"
  ZipFile :: "path \<Rightarrow> zip_file option"
  decode_utf8 :: "bytes \<Rightarrow> string option"
  fromstring :: "string \<Rightarrow> element option"

text \<open>\<open>Path.exists\<close>, \<open>is_file\<close> and \<open>is_dir\<close> are \<open>stat\<close> calls that answer \<open>False\<close>
  when \<open>stat\<close> fails.\<close>

definition path_exists :: "env \<Rightarrow> path \<Rightarrow> bool" where
  "path_exists env p = (stat env p \<noteq> None)"

definition is_file :: "env \<Rightarrow> path \<Rightarrow> bool" where
  "is_file env p = (case stat env p of None \<Rightarrow> False | Some s \<Rightarrow> st_kind s = RegularFile)"

definition is_dir :: "env \<Rightarrow> path \<Rightarrow> bool" where
  "is_dir env p = (case stat env p of None \<Rightarrow> False | Some s \<Rightarrow> st_kind s = Directory)"

subsection \<open>Exceptions and output\<close>

datatype py_error = FileNotFoundError | TypeError | KeyError

text \<open>One constructor for each \<open>print\<close> statement of the script, with the values it
  interpolates. The text of a caught exception and the formatting of a date are not part
  of the event.\<close>

datatype out =
    P_title
  | P_rule
  | P_no_save_dirs
  | P_usage
  | P_searching_in
  | P_search_path path
  | P_no_save_files
  | P_found nat
  | P_analyzing_banner
  | P_analyzing string
  | P_status bool nat
  | P_failed
  | P_path_not_exist path
  | P_no_xml_warning string
  | P_error_reading string
  | P_xml_parse_error string
  | P_summary_rule
  | P_summary_title
  | P_total nat
  | P_with_diadochi nat
  | P_as_nations nat
  | P_as_dynasties nat
  | P_both_formats_warning
  | P_both_formats_note
  | P_all_legacy
  | P_all_modern
  | P_breakdown_rule
  | P_breakdown_title
  | P_dash_rule
  | P_filename string
  | P_modified real
  | P_version string
  | P_save_date string
  | P_player "string option"
  | P_nation_dynasty "string option" string
  | P_format_legacy
  | P_expected_modern string string
  | P_format_modern

subsection \<open>SaveFileAnalysis\<close>

record player_data =
  p_id :: "string option"
  p_name :: "string option"
  p_nation :: "string option"
  p_dynasty :: "string option"

record SaveFileAnalysis =
  filepath :: path
  filename :: string
  file_mtime :: "real option"
  game_id :: "string option"
  game_version :: "string option"
  save_date :: "string option"
  players :: "player_data list"
  has_diadochi :: bool
  diadochi_as_nations :: bool
  diadochi_as_dynasties :: bool

text \<open>\<open>SaveFileAnalysis.__init__\<close>.\<close>

definition SaveFileAnalysis_init :: "env \<Rightarrow> path \<Rightarrow> SaveFileAnalysis" where
  "SaveFileAnalysis_init env fp =
     \<lparr>filepath = fp,
      filename = path_name fp,
      file_mtime = (if path_exists env fp then map_option st_mtime (stat env fp) else None),
      game_id = None,
      game_version = None,
      save_date = None,
      players = [],
      has_diadochi = False,
      diadochi_as_nations = False,
      diadochi_as_dynasties = False\<rparr>"

subsection \<open>extract\_xml\_from\_save\<close>

text \<open>\<open>zf.read(name).decode('utf-8')\<close> inside the \<open>try\<close>: a failure of either call is
  caught, reported and turned into \<open>None\<close>.\<close>

definition read_decoded :: "env \<Rightarrow> zip_file \<Rightarrow> string \<Rightarrow> string option" where
  "read_decoded env zf n =
     (case read_member zf n of None \<Rightarrow> None | Some b \<Rightarrow> decode_utf8 env b)"

definition read_or_report :: "env \<Rightarrow> path \<Rightarrow> zip_file \<Rightarrow> string \<Rightarrow> out list \<times> string option" where
  "read_or_report env save_path zf n =
     (case read_decoded env zf n of
        None \<Rightarrow> ([P_error_reading (path_name save_path)], None)
      | Some s \<Rightarrow> ([], Some s))"

definition extract_xml_from_save :: "env \<Rightarrow> path \<Rightarrow> out list \<times> string option" where
  "extract_xml_from_save env save_path =
     (case ZipFile env save_path of
        None \<Rightarrow> ([P_error_reading (path_name save_path)], None)
      | Some zf \<Rightarrow>
          (let file_list = namelist zf in
           if ''game.xml'' \<in> set file_list
           then read_or_report env save_path zf ''game.xml''
           else (case filter (\<lambda>f. endswith f ''.xml'') file_list of
                   f # _ \<Rightarrow> read_or_report env save_path zf f
                 | [] \<Rightarrow> ([P_no_xml_warning (path_name save_path)], None))))"

subsection \<open>analyze\_save\_file\<close>

definition legacy_form :: "player_data \<Rightarrow> bool" where
  "legacy_form p = py_in (p_nation p) DIADOCHI_NATIONS"

definition modern_form :: "player_data \<Rightarrow> bool" where
  "modern_form p = (p_nation p = Some ''NATION_GREECE'' \<and> py_in (p_dynasty p) DIADOCHI_DYNASTIES)"

definition player_of :: "element \<Rightarrow> player_data" where
  "player_of player_elem =
     \<lparr>p_id = get player_elem ''ID'',
      p_name = get player_elem ''Name'',
      p_nation = get player_elem ''Nation'',
      p_dynasty = get player_elem ''Dynasty''\<rparr>"

text \<open>The body of the loop over the Player elements (lines 88 to 107).\<close>

definition player_step :: "SaveFileAnalysis \<Rightarrow> element \<Rightarrow> SaveFileAnalysis" where
  "player_step analysis player_elem =
     (let player_data = player_of player_elem;
          a1 = analysis\<lparr>players := players analysis @ [player_data]\<rparr>;
          a2 = (if legacy_form player_data
                then a1\<lparr>has_diadochi := True, diadochi_as_nations := True\<rparr> else a1);
          a3 = (if modern_form player_data
                then a2\<lparr>has_diadochi := True, diadochi_as_dynasties := True\<rparr> else a2)
      in a3)"

text \<open>Lines 81 to 109: the metadata and the loop, once the document is parsed.\<close>

definition analyze_root :: "SaveFileAnalysis \<Rightarrow> element \<Rightarrow> SaveFileAnalysis" where
  "analyze_root analysis root_elem =
     foldl player_step
       (analysis\<lparr>game_id := get root_elem ''GameId'',
                 game_version := get root_elem ''Version'',
                 save_date := get root_elem ''SaveDate''\<rparr>)
       (findall_descendants root_elem ''Player'')"

definition analyze_save_file :: "env \<Rightarrow> path \<Rightarrow> out list \<times> SaveFileAnalysis option" where
  "analyze_save_file env save_path =
     (let analysis = SaveFileAnalysis_init env save_path in
      case extract_xml_from_save env save_path of
        (o1, xml_content) \<Rightarrow>
          if \<not> truthy xml_content then (o1, None)
          else (case fromstring env (the xml_content) of
                  None \<Rightarrow> (o1 @ [P_xml_parse_error (path_name save_path)], None)
                | Some root_elem \<Rightarrow> (o1, Some (analyze_root analysis root_elem))))"

subsection \<open>find\_save\_files\<close>

text \<open>The loop of lines 115 to 124: the messages it prints and the paths it collects,
  both in the order of the search paths.\<close>

fun collect_save_files :: "env \<Rightarrow> path list \<Rightarrow> out list \<times> path list" where
  "collect_save_files env [] = ([], [])"
| "collect_save_files env (search_path # rest) =
     (case collect_save_files env rest of
        (o2, found) \<Rightarrow>
          if \<not> path_exists env search_path then (P_path_not_exist search_path # o2, found)
          else if is_file env search_path \<and> path_suffix search_path = ''.zip''
          then (o2, search_path # found)
          else if is_dir env search_path then (o2, rglob_zip env search_path @ found)
          else (o2, found))"

text \<open>\<open>sorted(save_files, key=lambda p: p.stat().st_mtime)\<close>: the key of every path is
  computed first, and a \<open>stat\<close> that fails raises out of the function; the sort is
  stable.\<close>

definition mtime_key :: "env \<Rightarrow> path \<Rightarrow> real option" where
  "mtime_key env p = map_option st_mtime (stat env p)"

definition find_save_files :: "env \<Rightarrow> path list \<Rightarrow> out list \<times> (py_error + path list)" where
  "find_save_files env search_paths =
     (case collect_save_files env search_paths of
        (o1, save_files) \<Rightarrow>
          (case those (map (mtime_key env) save_files) of
             None \<Rightarrow> (o1, Inl FileNotFoundError)
           | Some keys \<Rightarrow> (o1, Inr (map snd (sort_key fst (zip keys save_files))))))"

subsection \<open>print\_analysis\_summary\<close>

text \<open>Lines 178 to 188, for one player of the breakdown. \<open>EXPECTED_MAPPINGS[nation]\<close>
  raises \<open>KeyError\<close> on a missing key.\<close>

definition print_player :: "player_data \<Rightarrow> out list \<times> py_error option" where
  "print_player player =
     (let nation = p_nation player;
          dynasty = (if truthy (p_dynasty player) then the (p_dynasty player) else ''None'');
          o1 = [P_player (p_name player), P_nation_dynasty nation dynasty]
      in if py_in nation DIADOCHI_NATIONS
         then (case map_of EXPECTED_MAPPINGS (the nation) of
                 None \<Rightarrow> (o1, Some KeyError)
               | Some expected \<Rightarrow>
                   (o1 @ [P_format_legacy, P_expected_modern (fst expected) (snd expected)], None))
         else (o1 @ [P_format_modern], None))"

text \<open>A \<open>for\<close> loop whose body prints and may raise: it stops at the first exception.\<close>

fun for_each :: "('a \<Rightarrow> out list \<times> py_error option) \<Rightarrow> 'a list \<Rightarrow> out list \<times> py_error option" where
  "for_each body [] = ([], None)"
| "for_each body (x # xs) =
     (case body x of
        (o1, Some e) \<Rightarrow> (o1, Some e)
      | (o1, None) \<Rightarrow> (case for_each body xs of (o2, r) \<Rightarrow> (o1 @ o2, r)))"

text \<open>The filter of lines 170 to 175.\<close>

definition diadochi_players :: "SaveFileAnalysis \<Rightarrow> player_data list" where
  "diadochi_players analysis =
     filter (\<lambda>p. py_in (p_nation p) DIADOCHI_NATIONS
                 \<or> (p_nation p = Some ''NATION_GREECE'' \<and> py_in (p_dynasty p) DIADOCHI_DYNASTIES))
       (players analysis)"

text \<open>Lines 159 to 188, for one archive of the breakdown.
  \<open>datetime.fromtimestamp(None)\<close> raises \<open>TypeError\<close>, before anything is printed.\<close>

definition print_breakdown :: "SaveFileAnalysis \<Rightarrow> out list \<times> py_error option" where
  "print_breakdown analysis =
     (case file_mtime analysis of
        None \<Rightarrow> ([], Some TypeError)
      | Some t \<Rightarrow>
          (let o1 = [P_filename (filename analysis), P_modified t]
                    @ (if truthy (game_version analysis) then [P_version (the (game_version analysis))] else [])
                    @ (if truthy (save_date analysis) then [P_save_date (the (save_date analysis))] else [])
           in case for_each print_player (diadochi_players analysis) of
                (o2, r) \<Rightarrow> (o1 @ o2, r)))"

definition print_analysis_summary :: "SaveFileAnalysis list \<Rightarrow> out list \<times> py_error option" where
  "print_analysis_summary analyses =
     (let total = length analyses;
          with_diadochi = filter has_diadochi analyses;
          as_nations = filter diadochi_as_nations analyses;
          as_dynasties = filter diadochi_as_dynasties analyses;
          o1 = [P_summary_rule, P_summary_title, P_rule,
                P_total total, P_with_diadochi (length with_diadochi),
                P_as_nations (length as_nations), P_as_dynasties (length as_dynasties)];
          o2 = (if as_nations \<noteq> [] \<and> as_dynasties \<noteq> []
                then [P_both_formats_warning, P_both_formats_note]
                else if as_nations \<noteq> [] then [P_all_legacy]
                else if as_dynasties \<noteq> [] then [P_all_modern]
                else [])
      in if with_diadochi \<noteq> []
         then (case for_each print_breakdown with_diadochi of
                 (o3, r) \<Rightarrow> (o1 @ o2 @ [P_breakdown_rule, P_breakdown_title, P_dash_rule] @ o3, r))
         else (o1 @ o2, None))"

subsection \<open>main\<close>

definition default_paths :: "env \<Rightarrow> path list" where
  "default_paths env =
     [home env @ [''Documents'', ''My Games'', ''OldWorld'', ''Save''],
      home env @ [''Documents'', ''My Games'', ''OldWorld'', ''Saves''],
      home env @ [''Library'', ''Application Support'', ''OldWorld'', ''Save''],
      home env @ [''Library'', ''Application Support'', ''OldWorld'', ''Saves'']]"

text \<open>Lines 203 to 207; \<open>argv\<close> is \<open>sys.argv[1:]\<close>, each argument already a \<open>Path\<close>.\<close>

definition resolve_search_paths :: "env \<Rightarrow> path list \<Rightarrow> path list" where
  "resolve_search_paths env argv =
     (if argv \<noteq> [] then argv else filter (path_exists env) (default_paths env))"

text \<open>The loop of lines 229 to 238. A \<open>SaveFileAnalysis\<close> object is always truthy, so
  \<open>if analysis\<close> tests for \<open>None\<close>.\<close>

fun analyze_all :: "env \<Rightarrow> path list \<Rightarrow> out list \<times> SaveFileAnalysis list" where
  "analyze_all env [] = ([], [])"
| "analyze_all env (save_file # rest) =
     (case analyze_save_file env save_file of
        (o1, r) \<Rightarrow>
          (case analyze_all env rest of
             (o2, analyses) \<Rightarrow>
               (case r of
                  Some analysis \<Rightarrow>
                    (P_analyzing (path_name save_file) # o1
                       @ [P_status (has_diadochi analysis) (length (players analysis))] @ o2,
                     analysis # analyses)
                | None \<Rightarrow>
                    (P_analyzing (path_name save_file) # o1 @ [P_failed] @ o2, analyses))))"

text \<open>\<open>main\<close>: what it prints, and its return value, the exit code, or the exception
  that leaves it.\<close>

definition main :: "env \<Rightarrow> path list \<Rightarrow> out list \<times> (py_error + nat)" where
  "main env argv =
     (let o0 = [P_title, P_rule];
          search_paths = resolve_search_paths env argv
      in if search_paths = [] then (o0 @ [P_no_save_dirs, P_usage], Inr 1)
         else
           (let o1 = o0 @ [P_searching_in] @ map P_search_path search_paths
            in case find_save_files env search_paths of
                 (o2, Inl e) \<Rightarrow> (o1 @ o2, Inl e)
               | (o2, Inr save_files) \<Rightarrow>
                   if save_files = [] then (o1 @ o2 @ [P_no_save_files], Inr 1)
                   else
                     (let o3 = o1 @ o2 @ [P_found (length save_files), P_analyzing_banner]
                      in case analyze_all env save_files of
                           (o4, analyses) \<Rightarrow>
                             (case print_analysis_summary analyses of
                                (o5, Some e) \<Rightarrow> (o3 @ o4 @ o5, Inl e)
                              | (o5, None) \<Rightarrow> (o3 @ o4 @ o5, Inr 0)))))"
subsection \<open>A sample environment\<close>

text \<open>A directory \<open>saves\<close> with three archives: \<open>a.zip\<close> holds a \<open>game.xml\<close> with one player
  of a successor nation, \<open>b.zip\<close> holds no \<open>game.xml\<close> but two other \<open>.xml\<close> files, and
  \<open>c.zip\<close> is not a readable archive. Beside it, \<open>misc\<close> holds an archive whose
  \<open>game.xml\<close> is empty, one without any \<open>.xml\<close> file, and one whose document has a
  root element named \<open>Player\<close>. The theorems below are instantiated on it.\<close>

definition legacy_doc :: string where
  \<open>legacy_doc = ''<Root Version="1.0"><Player ID="0" Name="Seleucus" Nation="NATION_SELEUCUS"/></Root>''\<close>

definition legacy_tree :: element where
  "legacy_tree =
     Element ''Root'' [(''Version'', ''1.0'')]
       [Element ''Player'' [(''ID'', ''0''), (''Name'', ''Seleucus''), (''Nation'', ''NATION_SELEUCUS'')] []]"

definition plain_doc :: string where
  \<open>plain_doc = ''<Root><Team><Player ID="0" Nation="NATION_ROME"/></Team></Root>''\<close>

definition plain_tree :: element where
  "plain_tree =
     Element ''Root'' []
       [Element ''Team'' [] [Element ''Player'' [(''ID'', ''0''), (''Nation'', ''NATION_ROME'')] []]]"

definition player_root_doc :: string where
  \<open>player_root_doc = ''<Player Nation="NATION_SELEUCUS"></Player>''\<close>

definition player_root_tree :: element where
  "player_root_tree = Element ''Player'' [(''Nation'', ''NATION_SELEUCUS'')] []"

definition sample_stat :: "path \<Rightarrow> stat_result option" where
  "sample_stat p =
     (if p = [''saves''] then Some \<lparr>st_kind = Directory, st_mtime = 10\<rparr>
      else if p = [''saves'', ''a.zip''] then Some \<lparr>st_kind = RegularFile, st_mtime = 300\<rparr>
      else if p = [''saves'', ''b.zip''] then Some \<lparr>st_kind = RegularFile, st_mtime = 100\<rparr>
      else if p = [''saves'', ''c.zip''] then Some \<lparr>st_kind = RegularFile, st_mtime = 200\<rparr>
      else if p = [''misc'', ''empty.zip''] then Some \<lparr>st_kind = RegularFile, st_mtime = 400\<rparr>
      else if p = [''misc'', ''noxml.zip''] then Some \<lparr>st_kind = RegularFile, st_mtime = 500\<rparr>
      else if p = [''misc'', ''rootplayer.zip''] then Some \<lparr>st_kind = RegularFile, st_mtime = 600\<rparr>
      else None)"

definition sample_rglob :: "path \<Rightarrow> path list" where
  "sample_rglob p =
     (if p = [''saves''] then [[''saves'', ''a.zip''], [''saves'', ''b.zip''], [''saves'', ''c.zip'']]
      else [])"

definition sample_ZipFile :: "path \<Rightarrow> zip_file option" where
  "sample_ZipFile p =
     (if p = [''saves'', ''a.zip'']
      then Some \<lparr>namelist = [''meta.txt'', ''game.xml''],
                 read_member = (\<lambda>n. if n = ''game.xml'' then Some legacy_doc else Some [])\<rparr>
      else if p = [''saves'', ''b.zip'']
      then Some \<lparr>namelist = [''notes.txt'', ''save1.xml'', ''save2.xml''],
                 read_member = (\<lambda>n. if n = ''save1.xml'' then Some plain_doc else Some [])\<rparr>
      else if p = [''misc'', ''empty.zip'']
      then Some \<lparr>namelist = [''game.xml''], read_member = (\<lambda>n. Some [])\<rparr>
      else if p = [''misc'', ''noxml.zip'']
      then Some \<lparr>namelist = [''readme.txt''], read_member = (\<lambda>n. Some [])\<rparr>
      else if p = [''misc'', ''rootplayer.zip'']
      then Some \<lparr>namelist = [''game.xml''], read_member = (\<lambda>n. Some player_root_doc)\<rparr>
      else None)"

definition sample_fromstring :: "string \<Rightarrow> element option" where
  "sample_fromstring s =
     (if s = legacy_doc then Some legacy_tree
      else if s = plain_doc then Some plain_tree
      else if s = player_root_doc then Some player_root_tree
      else None)"

definition sample_env :: env where
  "sample_env =
     \<lparr>home = [''home'', ''user''],
      stat = sample_stat,
      rglob_zip = sample_rglob,
      ZipFile = sample_ZipFile,
      decode_utf8 = Some,
      fromstring = sample_fromstring\<rparr>"

text \<open>The analysis of \<open>a.zip\<close>, and the analysis of an archive with one player of
  NATION\_GREECE and DYNASTY\_PTOLEMY.\<close>

definition legacy_analysis :: SaveFileAnalysis where
  "legacy_analysis =
     \<lparr>filepath = [''saves'', ''a.zip''], filename = ''a.zip'', file_mtime = Some 300,
      game_id = None, game_version = Some ''1.0'', save_date = None,
      players = [\<lparr>p_id = Some ''0'', p_name = Some ''Seleucus'',
                  p_nation = Some ''NATION_SELEUCUS'', p_dynasty = None\<rparr>],
      has_diadochi = True, diadochi_as_nations = True, diadochi_as_dynasties = False\<rparr>"

definition modern_analysis :: SaveFileAnalysis where
  "modern_analysis =
     \<lparr>filepath = [''saves'', ''m.zip''], filename = ''m.zip'', file_mtime = Some 700,
      game_id = None, game_version = None, save_date = None,
      players = [\<lparr>p_id = Some ''0'', p_name = Some ''Ptolemy'',
                  p_nation = Some ''NATION_GREECE'', p_dynasty = Some ''DYNASTY_PTOLEMY''\<rparr>],
      has_diadochi = True, diadochi_as_nations = False, diadochi_as_dynasties = True\<rparr>"

subsection \<open>Kinds of output lines\<close>

text \<open>The lines of the loop of \<open>main\<close> over the archives (lines 231 to 238).\<close>

definition is_progress :: "out \<Rightarrow> bool" where
  "is_progress e =
     (case e of P_analyzing _ \<Rightarrow> True | P_status _ _ \<Rightarrow> True | P_failed \<Rightarrow> True | _ \<Rightarrow> False)"

text \<open>The lines \<open>analyze_save_file\<close> and \<open>extract_xml_from_save\<close> print for an archive they
  give up on.\<close>

definition is_failure_report :: "out \<Rightarrow> bool" where
  "is_failure_report e =
     (case e of P_no_xml_warning _ \<Rightarrow> True | P_error_reading _ \<Rightarrow> True
              | P_xml_parse_error _ \<Rightarrow> True | _ \<Rightarrow> False)"

text \<open>The lines of the detailed breakdown, one block for each archive (lines 162 to 188).\<close>

definition is_breakdown :: "out \<Rightarrow> bool" where
  "is_breakdown e =
     (case e of P_filename _ \<Rightarrow> True | P_modified _ \<Rightarrow> True | P_version _ \<Rightarrow> True
              | P_save_date _ \<Rightarrow> True | P_player _ \<Rightarrow> True | P_nation_dynasty _ _ \<Rightarrow> True
              | P_format_legacy \<Rightarrow> True | P_expected_modern _ _ \<Rightarrow> True
              | P_format_modern \<Rightarrow> True | _ \<Rightarrow> False)"

text \<open>The progress lines of one archive: its name, then the status of its analysis or
  the failure mark.\<close>

definition progress_of :: "env \<Rightarrow> path \<Rightarrow> out list" where
  "progress_of env save_file =
     [P_analyzing (path_name save_file),
      (case snd (analyze_save_file env save_file) of
         Some analysis \<Rightarrow> P_status (has_diadochi analysis) (length (players analysis))
       | None \<Rightarrow> P_failed)]"

section \<open>Properties\<close>

subsection \<open>The loop over the Player elements\<close>

lemma players_player_step: "players (player_step a e) = players a @ [player_of e]"
  by (simp add: player_step_def Let_def)

lemma players_foldl_player_step:
  "players (foldl player_step a es) = players a @ map player_of es"
  by (induction es arbitrary: a) (simp_all add: players_player_step)

lemma flags_player_step:
  "has_diadochi (player_step a e) =
     (has_diadochi a \<or> legacy_form (player_of e) \<or> modern_form (player_of e))"
  "diadochi_as_nations (player_step a e) = (diadochi_as_nations a \<or> legacy_form (player_of e))"
  "diadochi_as_dynasties (player_step a e) = (diadochi_as_dynasties a \<or> modern_form (player_of e))"
  by (simp_all add: player_step_def Let_def)

lemma flags_foldl_player_step:
  "has_diadochi (foldl player_step a es) =
     (has_diadochi a \<or> (\<exists>e\<in>set es. legacy_form (player_of e) \<or> modern_form (player_of e)))"
  "diadochi_as_nations (foldl player_step a es) =
     (diadochi_as_nations a \<or> (\<exists>e\<in>set es. legacy_form (player_of e)))"
  "diadochi_as_dynasties (foldl player_step a es) =
     (diadochi_as_dynasties a \<or> (\<exists>e\<in>set es. modern_form (player_of e)))"
  by (induction es arbitrary: a) (auto simp: flags_player_step)

lemma meta_foldl_player_step:
  "filepath (foldl player_step a es) = filepath a"
  "filename (foldl player_step a es) = filename a"
  "file_mtime (foldl player_step a es) = file_mtime a"
  "game_id (foldl player_step a es) = game_id a"
  "game_version (foldl player_step a es) = game_version a"
  "save_date (foldl player_step a es) = save_date a"
  by (induction es arbitrary: a) (simp_all add: player_step_def Let_def)

lemma analyze_root_players:
  "players (analyze_root a r) = players a @ map player_of (findall_descendants r ''Player'')"
  by (simp add: analyze_root_def players_foldl_player_step)

lemma analyze_root_flags:
  "has_diadochi (analyze_root a r) =
     (has_diadochi a \<or> (\<exists>e\<in>set (findall_descendants r ''Player'').
         legacy_form (player_of e) \<or> modern_form (player_of e)))"
  "diadochi_as_nations (analyze_root a r) =
     (diadochi_as_nations a \<or> (\<exists>e\<in>set (findall_descendants r ''Player''). legacy_form (player_of e)))"
  "diadochi_as_dynasties (analyze_root a r) =
     (diadochi_as_dynasties a \<or> (\<exists>e\<in>set (findall_descendants r ''Player''). modern_form (player_of e)))"
  by (simp_all add: analyze_root_def flags_foldl_player_step)

lemma analyze_root_meta:
  "filepath (analyze_root a r) = filepath a"
  "filename (analyze_root a r) = filename a"
  "file_mtime (analyze_root a r) = file_mtime a"
  by (simp_all add: analyze_root_def meta_foldl_player_step)

lemma analyze_save_file_Some:
  "snd (analyze_save_file env p) = Some a \<Longrightarrow>
     \<exists>s r. snd (extract_xml_from_save env p) = Some s \<and> s \<noteq> [] \<and> fromstring env s = Some r
          \<and> analyze_save_file env p = (fst (extract_xml_from_save env p), Some a)
          \<and> a = analyze_root (SaveFileAnalysis_init env p) r"
  by (auto simp: analyze_save_file_def Let_def truthy_def
           split: prod.splits option.splits if_splits)

lemma analyze_save_file_parsed:
  "snd (extract_xml_from_save env p) = Some s \<Longrightarrow> s \<noteq> [] \<Longrightarrow> fromstring env s = Some r \<Longrightarrow>
     analyze_save_file env p =
       (fst (extract_xml_from_save env p), Some (analyze_root (SaveFileAnalysis_init env p) r))"
  by (auto simp: analyze_save_file_def Let_def truthy_def split: prod.splits)

lemma legacy_form_iff:
  "legacy_form pl \<longleftrightarrow>
     p_nation pl \<in> {Some ''NATION_SELEUCUS'', Some ''NATION_ANTIGONUS'', Some ''NATION_PTOLEMY''}"
  by (cases "p_nation pl") (simp_all add: legacy_form_def py_in_def DIADOCHI_NATIONS_def)

lemma modern_form_iff:
  "modern_form pl \<longleftrightarrow>
     p_nation pl = Some ''NATION_GREECE''
     \<and> p_dynasty pl \<in> {Some ''DYNASTY_SELEUCID'', Some ''DYNASTY_ANTIGONID'', Some ''DYNASTY_PTOLEMY''}"
  by (cases "p_dynasty pl") (simp_all add: modern_form_def py_in_def DIADOCHI_DYNASTIES_def)

subsection \<open>The sample environment, evaluated\<close>

lemma sample_extract_a:
  "extract_xml_from_save sample_env [''saves'', ''a.zip''] = ([], Some legacy_doc)"
  by (simp add: extract_xml_from_save_def sample_env_def sample_ZipFile_def
        read_or_report_def read_decoded_def)

lemma sample_extract_b:
  "extract_xml_from_save sample_env [''saves'', ''b.zip''] = ([], Some plain_doc)"
  by (simp add: extract_xml_from_save_def sample_env_def sample_ZipFile_def
        read_or_report_def read_decoded_def endswith_def)

lemma sample_extract_c:
  "extract_xml_from_save sample_env [''saves'', ''c.zip''] = ([P_error_reading ''c.zip''], None)"
  by (simp add: extract_xml_from_save_def sample_env_def sample_ZipFile_def path_name_def)

lemma sample_analyze_a:
  "analyze_save_file sample_env [''saves'', ''a.zip''] =
     ([], Some (analyze_root (SaveFileAnalysis_init sample_env [''saves'', ''a.zip'']) legacy_tree))"
  by (simp add: analyze_save_file_def sample_extract_a truthy_def)
     (simp add: legacy_doc_def sample_env_def sample_fromstring_def)

lemma sample_analyze_b:
  "analyze_save_file sample_env [''saves'', ''b.zip''] =
     ([], Some (analyze_root (SaveFileAnalysis_init sample_env [''saves'', ''b.zip'']) plain_tree))"
  by (simp add: analyze_save_file_def sample_extract_b truthy_def)
     (simp add: legacy_doc_def plain_doc_def sample_env_def sample_fromstring_def)

lemma sample_analyze_c:
  "analyze_save_file sample_env [''saves'', ''c.zip''] = ([P_error_reading ''c.zip''], None)"
  by (simp add: analyze_save_file_def sample_extract_c truthy_def)

lemma sample_root_a:
  "analyze_root (SaveFileAnalysis_init sample_env [''saves'', ''a.zip'']) legacy_tree = legacy_analysis"
  by (simp add: analyze_root_def SaveFileAnalysis_init_def legacy_tree_def findall_descendants_def
        player_step_def player_of_def get_def legacy_form_def modern_form_def py_in_def
        DIADOCHI_NATIONS_def path_name_def path_exists_def sample_env_def sample_stat_def
        legacy_analysis_def)

lemma sample_root_b:
  "analyze_root (SaveFileAnalysis_init sample_env [''saves'', ''b.zip'']) plain_tree =
    \<lparr>filepath = [''saves'', ''b.zip''], filename = ''b.zip'', file_mtime = Some 100,
     game_id = None, game_version = None, save_date = None,
     players = [\<lparr>p_id = Some ''0'', p_name = None,
                 p_nation = Some ''NATION_ROME'', p_dynasty = None\<rparr>],
     has_diadochi = False, diadochi_as_nations = False, diadochi_as_dynasties = False\<rparr>"
  by (simp add: analyze_root_def SaveFileAnalysis_init_def plain_tree_def findall_descendants_def
        player_step_def player_of_def get_def legacy_form_def modern_form_def py_in_def
        DIADOCHI_NATIONS_def path_name_def path_exists_def sample_env_def sample_stat_def)

lemma sample_find:
  "find_save_files sample_env [[''saves'']] =
     ([], Inr [[''saves'', ''b.zip''], [''saves'', ''c.zip''], [''saves'', ''a.zip'']])"
  by (simp add: find_save_files_def path_exists_def is_file_def is_dir_def mtime_key_def
        sample_env_def sample_stat_def sample_rglob_def)

subsection \<open>Classification of the records\<close>

text \<open>
  C1. For every record in the player list of a successful analysis: a nation among
  NATION\_SELEUCUS, NATION\_ANTIGONUS, NATION\_PTOLEMY makes the analysis' \<open>has_diadochi\<close>
  and \<open>diadochi_as_nations\<close> true; the nation NATION\_GREECE with a dynasty among
  DYNASTY\_SELEUCID, DYNASTY\_ANTIGONID, DYNASTY\_PTOLEMY makes \<open>has_diadochi\<close> and
  \<open>diadochi_as_dynasties\<close> true; no record meets both conditions, NATION\_GREECE not being
  one of \<open>DIADOCHI_NATIONS\<close>.
\<close>

theorem record_sets_flags:
  assumes "snd (analyze_save_file env p) = Some a"
  shows "(\<forall>pl\<in>set (players a).
            (p_nation pl \<in> {Some ''NATION_SELEUCUS'', Some ''NATION_ANTIGONUS'', Some ''NATION_PTOLEMY''}
               \<longrightarrow> has_diadochi a \<and> diadochi_as_nations a)
          \<and> (p_nation pl = Some ''NATION_GREECE''
               \<and> p_dynasty pl \<in> {Some ''DYNASTY_SELEUCID'', Some ''DYNASTY_ANTIGONID'', Some ''DYNASTY_PTOLEMY''}
               \<longrightarrow> has_diadochi a \<and> diadochi_as_dynasties a)
          \<and> \<not> (p_nation pl \<in> {Some ''NATION_SELEUCUS'', Some ''NATION_ANTIGONUS'', Some ''NATION_PTOLEMY''}
               \<and> p_nation pl = Some ''NATION_GREECE''))
       \<and> ''NATION_GREECE'' \<notin> DIADOCHI_NATIONS"
proof -
  from analyze_save_file_Some [OF assms] obtain r
    where a: "a = analyze_root (SaveFileAnalysis_init env p) r" by blast
  have "\<forall>pl\<in>set (players a).
          (legacy_form pl \<longrightarrow> has_diadochi a \<and> diadochi_as_nations a)
        \<and> (modern_form pl \<longrightarrow> has_diadochi a \<and> diadochi_as_dynasties a)"
    unfolding a
    by (auto simp: analyze_root_flags analyze_root_players SaveFileAnalysis_init_def)
  moreover have "''NATION_GREECE'' \<notin> DIADOCHI_NATIONS"
    by (simp add: DIADOCHI_NATIONS_def)
  ultimately show ?thesis
    unfolding legacy_form_iff modern_form_iff by auto
qed

theorem record_sets_flags_witness:
  "\<exists>a. snd (analyze_save_file sample_env [''saves'', ''a.zip'']) = Some a
      \<and> players a = [\<lparr>p_id = Some ''0'', p_name = Some ''Seleucus'',
                       p_nation = Some ''NATION_SELEUCUS'', p_dynasty = None\<rparr>]
      \<and> has_diadochi a \<and> diadochi_as_nations a"
proof -
  let ?a = "analyze_root (SaveFileAnalysis_init sample_env [''saves'', ''a.zip'']) legacy_tree"
  have h: "snd (analyze_save_file sample_env [''saves'', ''a.zip'']) = Some ?a"
    by (simp add: sample_analyze_a)
  have p: "players ?a = [\<lparr>p_id = Some ''0'', p_name = Some ''Seleucus'',
                        p_nation = Some ''NATION_SELEUCUS'', p_dynasty = None\<rparr>]"
    by (simp add: sample_root_a legacy_analysis_def)
  from record_sets_flags [OF h] have "has_diadochi ?a \<and> diadochi_as_nations ?a"
    unfolding p by simp
  with h p show ?thesis by blast
qed

text \<open>
  C9. A successful analysis has \<open>has_diadochi\<close> true exactly when \<open>diadochi_as_nations\<close>
  or \<open>diadochi_as_dynasties\<close> is true.
\<close>

theorem has_diadochi_invariant:
  assumes "snd (analyze_save_file env p) = Some a"
  shows "has_diadochi a = (diadochi_as_nations a \<or> diadochi_as_dynasties a)"
proof -
  from analyze_save_file_Some [OF assms] obtain r
    where a: "a = analyze_root (SaveFileAnalysis_init env p) r" by blast
  show ?thesis
    unfolding a by (auto simp: analyze_root_flags SaveFileAnalysis_init_def)
qed

theorem has_diadochi_invariant_witness:
  "\<exists>a. snd (analyze_save_file sample_env [''saves'', ''a.zip'']) = Some a
      \<and> diadochi_as_nations a \<and> has_diadochi a"
proof -
  let ?a = "analyze_root (SaveFileAnalysis_init sample_env [''saves'', ''a.zip'']) legacy_tree"
  have h: "snd (analyze_save_file sample_env [''saves'', ''a.zip'']) = Some ?a"
    by (simp add: sample_analyze_a)
  have n: "diadochi_as_nations ?a"
    by (simp add: sample_root_a legacy_analysis_def)
  from has_diadochi_invariant [OF h] n have "has_diadochi ?a" by simp
  with h n show ?thesis by blast
qed

subsection \<open>Extraction of the document\<close>

lemma endswith_iff: "endswith s suf \<longleftrightarrow> (\<exists>pre. s = pre @ suf)"
  unfolding endswith_def
  by (metis append_eq_conv_conj append_take_drop_id length_append diff_add_inverse2 le_add2 length_drop)

lemma filter_first:
  "xs = pre @ f # post \<Longrightarrow> P f \<Longrightarrow> \<forall>g\<in>set pre. \<not> P g \<Longrightarrow> filter P xs = f # filter P post"
  by simp

lemma extract_Some_silent:
  "snd (extract_xml_from_save env p) = Some s \<Longrightarrow> fst (extract_xml_from_save env p) = []"
  by (auto simp: extract_xml_from_save_def read_or_report_def Let_def
           split: option.splits list.splits if_splits)

lemma sample_extract_empty:
  "extract_xml_from_save sample_env [''misc'', ''empty.zip''] = ([], Some [])"
  by (simp add: extract_xml_from_save_def sample_env_def sample_ZipFile_def
        read_or_report_def read_decoded_def)

text \<open>
  C5. For an archive that opens, the extractor returns the decoded content of the member
  named \<open>game.xml\<close> when the listing has one; otherwise the decoded content of the first
  member of the listing whose name ends in \<open>.xml\<close>; and when no name of the listing ends
  in \<open>.xml\<close> it prints the warning and returns \<open>None\<close>. A read or a decoding that fails
  gives \<open>None\<close>.
\<close>

theorem extract_selects_document:
  assumes "ZipFile env p = Some zf"
  shows "(''game.xml'' \<in> set (namelist zf) \<longrightarrow>
            snd (extract_xml_from_save env p)
              = Option.bind (read_member zf ''game.xml'') (decode_utf8 env))
       \<and> (\<forall>pre f post.
            ''game.xml'' \<notin> set (namelist zf) \<and> namelist zf = pre @ f # post
            \<and> (\<exists>stem. f = stem @ ''.xml'') \<and> (\<forall>g\<in>set pre. \<not> (\<exists>stem. g = stem @ ''.xml''))
            \<longrightarrow> snd (extract_xml_from_save env p)
                  = Option.bind (read_member zf f) (decode_utf8 env))
       \<and> ((\<forall>g\<in>set (namelist zf). \<not> (\<exists>stem. g = stem @ ''.xml''))
            \<longrightarrow> extract_xml_from_save env p = ([P_no_xml_warning (path_name p)], None))"
proof (intro conjI allI impI)
  assume "''game.xml'' \<in> set (namelist zf)"
  with assms show "snd (extract_xml_from_save env p)
      = Option.bind (read_member zf ''game.xml'') (decode_utf8 env)"
    by (simp add: extract_xml_from_save_def read_or_report_def read_decoded_def
             split: option.splits)
next
  fix pre f post
  assume h: "''game.xml'' \<notin> set (namelist zf) \<and> namelist zf = pre @ f # post
            \<and> (\<exists>stem. f = stem @ ''.xml'') \<and> (\<forall>g\<in>set pre. \<not> (\<exists>stem. g = stem @ ''.xml''))"
  then have nl: "namelist zf = pre @ f # post" and g: "''game.xml'' \<notin> set (namelist zf)"
    by blast+
  from h have "filter (\<lambda>f. endswith f ''.xml'') (pre @ f # post)
               = f # filter (\<lambda>f. endswith f ''.xml'') post"
    by (intro filter_first) (auto simp: endswith_iff)
  then have fl: "filter (\<lambda>f. endswith f ''.xml'') (namelist zf)
               = f # filter (\<lambda>f. endswith f ''.xml'') post"
    by (simp only: nl)
  have "extract_xml_from_save env p = read_or_report env p zf f"
    using assms g by (simp add: extract_xml_from_save_def fl)
  then show "snd (extract_xml_from_save env p)
      = Option.bind (read_member zf f) (decode_utf8 env)"
    by (simp add: read_or_report_def read_decoded_def split: option.splits)
next
  assume h: "\<forall>g\<in>set (namelist zf). \<not> (\<exists>stem. g = stem @ ''.xml'')"
  have "''game.xml'' = ''game'' @ ''.xml''" by simp
  with h have "''game.xml'' \<notin> set (namelist zf)" by blast
  moreover from h have "filter (\<lambda>f. endswith f ''.xml'') (namelist zf) = []"
    by (auto simp: endswith_iff filter_empty_conv)
  ultimately show "extract_xml_from_save env p = ([P_no_xml_warning (path_name p)], None)"
    using assms by (simp add: extract_xml_from_save_def)
qed

theorem extract_selects_document_witness:
  "sample_ZipFile [''saves'', ''a.zip''] \<noteq> None
   \<and> snd (extract_xml_from_save sample_env [''saves'', ''a.zip'']) = Some legacy_doc
   \<and> sample_ZipFile [''saves'', ''b.zip''] \<noteq> None
   \<and> snd (extract_xml_from_save sample_env [''saves'', ''b.zip'']) = Some plain_doc
   \<and> sample_ZipFile [''misc'', ''noxml.zip''] \<noteq> None
   \<and> extract_xml_from_save sample_env [''misc'', ''noxml.zip'']
       = ([P_no_xml_warning ''noxml.zip''], None)"
proof -
  let ?za = "\<lparr>namelist = [''meta.txt'', ''game.xml''],
              read_member = (\<lambda>n. if n = ''game.xml'' then Some legacy_doc else Some [])\<rparr>"
  let ?zb = "\<lparr>namelist = [''notes.txt'', ''save1.xml'', ''save2.xml''],
              read_member = (\<lambda>n. if n = ''save1.xml'' then Some plain_doc else Some [])\<rparr>"
  let ?zn = "\<lparr>namelist = [''readme.txt''], read_member = (\<lambda>n. Some [])\<rparr>"
  have a: "ZipFile sample_env [''saves'', ''a.zip''] = Some ?za"
    and b: "ZipFile sample_env [''saves'', ''b.zip''] = Some ?zb"
    and n: "ZipFile sample_env [''misc'', ''noxml.zip''] = Some ?zn"
    by (simp_all add: sample_env_def sample_ZipFile_def)
  have 1: "snd (extract_xml_from_save sample_env [''saves'', ''a.zip'']) = Some legacy_doc"
    using extract_selects_document [OF a] by (simp add: sample_env_def)
  have "namelist ?zb = [''notes.txt''] @ ''save1.xml'' # [''save2.xml'']"
    and "''save1.xml'' = ''save1'' @ ''.xml''"
    and "\<forall>g\<in>set [''notes.txt'']. \<not> (\<exists>stem. g = stem @ ''.xml'')"
    and "''game.xml'' \<notin> set (namelist ?zb)"
    by (simp_all add: append_eq_conv_conj)
  then have 2: "snd (extract_xml_from_save sample_env [''saves'', ''b.zip''])
                  = Option.bind (read_member ?zb ''save1.xml'') (decode_utf8 sample_env)"
    using extract_selects_document [OF b] by blast
  have "\<forall>g\<in>set (namelist ?zn). \<not> (\<exists>stem. g = stem @ ''.xml'')"
    by (simp add: append_eq_conv_conj)
  then have 3: "extract_xml_from_save sample_env [''misc'', ''noxml.zip'']
                  = ([P_no_xml_warning (path_name [''misc'', ''noxml.zip''])], None)"
    using extract_selects_document [OF n] by blast
  show ?thesis
    using 1 2 3 by (simp add: sample_env_def sample_ZipFile_def path_name_def)
qed

text \<open>
  C10. When the extracted and decoded document is the empty string, \<open>analyze_save_file\<close>
  returns \<open>None\<close> and prints nothing, and the loop of \<open>main\<close> reports the archive as
  failed and adds no analysis: the test \<open>not xml_content\<close> holds for \<open>''\<close> as it does
  for \<open>None\<close>.
\<close>

theorem empty_document_fails:
  assumes "snd (extract_xml_from_save env p) = Some []"
  shows "analyze_save_file env p = ([], None)
       \<and> analyze_all env [p] = ([P_analyzing (path_name p), P_failed], [])"
proof -
  have e: "extract_xml_from_save env p = ([], Some [])"
    using assms extract_Some_silent [OF assms] by (simp add: prod_eq_iff)
  then have a: "analyze_save_file env p = ([], None)"
    by (simp add: analyze_save_file_def truthy_def)
  then show ?thesis by simp
qed
theorem empty_document_fails_witness:
  "snd (extract_xml_from_save sample_env [''misc'', ''empty.zip'']) = Some []
   \<and> analyze_save_file sample_env [''misc'', ''empty.zip''] = ([], None)
   \<and> analyze_all sample_env [[''misc'', ''empty.zip'']] = ([P_analyzing ''empty.zip'', P_failed], [])"
proof -
  have h: "snd (extract_xml_from_save sample_env [''misc'', ''empty.zip'']) = Some []"
    by (simp add: sample_extract_empty)
  show ?thesis
    using h empty_document_fails [OF h] by (simp add: path_name_def)
qed

subsection \<open>The records of a document\<close>

lemma sample_extract_rootplayer:
  "extract_xml_from_save sample_env [''misc'', ''rootplayer.zip''] = ([], Some player_root_doc)"
  by (simp add: extract_xml_from_save_def sample_env_def sample_ZipFile_def
        read_or_report_def read_decoded_def)

lemma sample_fromstring_rootplayer:
  "fromstring sample_env player_root_doc = Some player_root_tree"
  by (simp add: sample_env_def sample_fromstring_def player_root_doc_def legacy_doc_def plain_doc_def)


lemma sample_fromstring_plain:
  "fromstring sample_env plain_doc = Some plain_tree"
  by (simp add: sample_env_def sample_fromstring_def plain_doc_def legacy_doc_def)


text \<open>
  C3, as the code has it. For every document that parses, every element named \<open>Player\<close>
  below the root element, at any depth, contributes exactly one record to the player
  list, in document order, and an attribute \<open>ID\<close>, \<open>Name\<close>, \<open>Nation\<close> or \<open>Dynasty\<close> that
  is missing gives \<open>None\<close> in the record.
\<close>

theorem players_from_descendants:
  assumes "snd (extract_xml_from_save env p) = Some s" and "s \<noteq> []"
    and "fromstring env s = Some r"
  shows "\<exists>a. snd (analyze_save_file env p) = Some a
           \<and> players a =
               map (\<lambda>e. \<lparr>p_id = get e ''ID'', p_name = get e ''Name'',
                         p_nation = get e ''Nation'', p_dynasty = get e ''Dynasty''\<rparr>)
                 (filter (\<lambda>e. tag e = ''Player'') (concat (map iter (children r))))
           \<and> (\<forall>e k. k \<notin> fst ` set (attrib e) \<longrightarrow> get e k = None)"
proof -
  let ?a = "analyze_root (SaveFileAnalysis_init env p) r"
  have "snd (analyze_save_file env p) = Some ?a"
    by (simp add: analyze_save_file_parsed [OF assms])
  moreover have "players ?a =
       map (\<lambda>e. \<lparr>p_id = get e ''ID'', p_name = get e ''Name'',
                 p_nation = get e ''Nation'', p_dynasty = get e ''Dynasty''\<rparr>)
         (filter (\<lambda>e. tag e = ''Player'') (concat (map iter (children r))))"
    by (simp add: analyze_root_players SaveFileAnalysis_init_def findall_descendants_def
          player_of_def [abs_def])
  moreover have "\<forall>e k. k \<notin> fst ` set (attrib e) \<longrightarrow> get e k = None"
    by (simp add: get_def map_of_eq_None_iff)
  ultimately show ?thesis by blast
qed

theorem players_from_descendants_witness:
  "snd (extract_xml_from_save sample_env [''saves'', ''b.zip'']) = Some plain_doc
   \<and> plain_doc \<noteq> [] \<and> fromstring sample_env plain_doc = Some plain_tree
   \<and> (\<exists>a. snd (analyze_save_file sample_env [''saves'', ''b.zip'']) = Some a
         \<and> players a = [\<lparr>p_id = Some ''0'', p_name = None,
                          p_nation = Some ''NATION_ROME'', p_dynasty = None\<rparr>])"
proof -
  have h1: "snd (extract_xml_from_save sample_env [''saves'', ''b.zip'']) = Some plain_doc"
    by (simp add: sample_extract_b)
  have h2: "plain_doc \<noteq> []" by (simp add: plain_doc_def)
  have h3: "fromstring sample_env plain_doc = Some plain_tree"
    by (rule sample_fromstring_plain)
  from players_from_descendants [OF h1 h2 h3] obtain a
    where a: "snd (analyze_save_file sample_env [''saves'', ''b.zip'']) = Some a"
      and pl: "players a =
               map (\<lambda>e. \<lparr>p_id = get e ''ID'', p_name = get e ''Name'',
                         p_nation = get e ''Nation'', p_dynasty = get e ''Dynasty''\<rparr>)
                 (filter (\<lambda>e. tag e = ''Player'') (concat (map iter (children plain_tree))))"
    by blast
  from pl have "players a = [\<lparr>p_id = Some ''0'', p_name = None,
                          p_nation = Some ''NATION_ROME'', p_dynasty = None\<rparr>]"
    by (simp add: plain_tree_def get_def)
  with a h1 h2 h3 show ?thesis by blast
qed

text \<open>
  The root element is not among the elements \<open>findall('.//Player')\<close> returns: a document
  whose root is named \<open>Player\<close> and has no element below it gives an empty player list.
\<close>

theorem root_player_not_recorded:
  "tag player_root_tree = ''Player''
   \<and> snd (extract_xml_from_save sample_env [''misc'', ''rootplayer.zip'']) = Some player_root_doc
   \<and> fromstring sample_env player_root_doc = Some player_root_tree
   \<and> map_option players (snd (analyze_save_file sample_env [''misc'', ''rootplayer.zip''])) = Some []"
proof -
  have h1: "snd (extract_xml_from_save sample_env [''misc'', ''rootplayer.zip'']) = Some player_root_doc"
    by (simp add: sample_extract_rootplayer)
  have h2: "player_root_doc \<noteq> []" by (simp add: player_root_doc_def)
  note h3 = sample_fromstring_rootplayer
  have "players (analyze_root (SaveFileAnalysis_init sample_env [''misc'', ''rootplayer.zip''])
          player_root_tree) = []"
    by (simp add: analyze_root_players findall_descendants_def player_root_tree_def
          SaveFileAnalysis_init_def)
  then show ?thesis
    using h1 h3 by (simp add: analyze_save_file_parsed [OF h1 h2 h3]) (simp add: player_root_tree_def)
qed



subsection \<open>The summary\<close>

lemma for_each_out:
  "\<forall>x\<in>set xs. \<forall>e\<in>set (fst (body x)). Q e \<Longrightarrow> \<forall>e\<in>set (fst (for_each body xs)). Q e"
proof (induction xs)
  case Nil
  then show ?case by simp
next
  case (Cons x xs)
  obtain o1 r1 where b: "body x = (o1, r1)" by (cases "body x")
  obtain o2 r2 where fe: "for_each body xs = (o2, r2)" by (cases "for_each body xs")
  from Cons.prems b have 1: "\<forall>e\<in>set o1. Q e" by simp
  from Cons.IH Cons.prems fe have 2: "\<forall>e\<in>set o2. Q e" by simp
  show ?case
    using 1 2 b fe by (cases r1) auto
qed



lemma print_player_out: "e \<in> set (fst (print_player pl)) \<Longrightarrow> is_breakdown e"
  by (auto simp: print_player_def Let_def is_breakdown_def split: if_splits option.splits)

lemma print_players_out:
  "\<forall>e\<in>set (fst (for_each print_player pls)). is_breakdown e"
  by (rule for_each_out) (simp add: print_player_out)


lemma print_breakdown_out: "e \<in> set (fst (print_breakdown a)) \<Longrightarrow> is_breakdown e"
proof (cases "file_mtime a")
  case None
  assume "e \<in> set (fst (print_breakdown a))"
  with None show ?thesis by (simp add: print_breakdown_def)
next
  case (Some t)
  assume e: "e \<in> set (fst (print_breakdown a))"
  obtain o2 r where fe: "for_each print_player (diadochi_players a) = (o2, r)"
    by (cases "for_each print_player (diadochi_players a)")
  have "\<forall>e\<in>set o2. is_breakdown e"
    using print_players_out [of "diadochi_players a"] fe by simp
  with e Some fe show ?thesis
    by (auto simp: print_breakdown_def Let_def is_breakdown_def split: if_splits)
qed


lemma breakdowns_out:
  "e \<in> set (fst (for_each print_breakdown xs)) \<Longrightarrow> is_breakdown e"
  using for_each_out [of xs print_breakdown is_breakdown] by (simp add: print_breakdown_out)

lemma filter_nonempty_iff: "filter P xs \<noteq> [] \<longleftrightarrow> (\<exists>x\<in>set xs. P x)"
  by (simp add: filter_empty_conv)

lemma summary_head_cases:
  "e \<in> set ([P_summary_rule, P_summary_title, P_rule, P_total (length analyses),
               P_with_diadochi (length (filter has_diadochi analyses)),
               P_as_nations (length (filter diadochi_as_nations analyses)),
               P_as_dynasties (length (filter diadochi_as_dynasties analyses))]
              @ (if filter diadochi_as_nations analyses \<noteq> [] \<and> filter diadochi_as_dynasties analyses \<noteq> []
                 then [P_both_formats_warning, P_both_formats_note]
                 else if filter diadochi_as_nations analyses \<noteq> [] then [P_all_legacy]
                 else if filter diadochi_as_dynasties analyses \<noteq> [] then [P_all_modern]
                 else [])) \<longleftrightarrow>
     e \<in> {P_summary_rule, P_summary_title, P_rule, P_total (length analyses),
          P_with_diadochi (length (filter has_diadochi analyses)),
          P_as_nations (length (filter diadochi_as_nations analyses)),
          P_as_dynasties (length (filter diadochi_as_dynasties analyses))}
     \<or> (e \<in> {P_both_formats_warning, P_both_formats_note}
          \<and> (\<exists>a\<in>set analyses. diadochi_as_nations a) \<and> (\<exists>a\<in>set analyses. diadochi_as_dynasties a))
     \<or> (e = P_all_legacy
          \<and> (\<exists>a\<in>set analyses. diadochi_as_nations a) \<and> \<not> (\<exists>a\<in>set analyses. diadochi_as_dynasties a))
     \<or> (e = P_all_modern
          \<and> (\<exists>a\<in>set analyses. diadochi_as_dynasties a) \<and> \<not> (\<exists>a\<in>set analyses. diadochi_as_nations a))"
  unfolding filter_nonempty_iff by auto

lemma summary_out_split:
  "\<exists>o3. set o3 \<subseteq> {P_breakdown_rule, P_breakdown_title, P_dash_rule} \<union> Collect is_breakdown \<and>
     fst (print_analysis_summary analyses) =
       ([P_summary_rule, P_summary_title, P_rule, P_total (length analyses),
               P_with_diadochi (length (filter has_diadochi analyses)),
               P_as_nations (length (filter diadochi_as_nations analyses)),
               P_as_dynasties (length (filter diadochi_as_dynasties analyses))]
              @ (if filter diadochi_as_nations analyses \<noteq> [] \<and> filter diadochi_as_dynasties analyses \<noteq> []
                 then [P_both_formats_warning, P_both_formats_note]
                 else if filter diadochi_as_nations analyses \<noteq> [] then [P_all_legacy]
                 else if filter diadochi_as_dynasties analyses \<noteq> [] then [P_all_modern]
                 else [])) @ o3"
proof (cases "filter has_diadochi analyses = []")
  case True
  then show ?thesis
    by (intro exI [of _ "[]"]) (simp add: print_analysis_summary_def Let_def)
next
  case False
  obtain o3 r where fe: "for_each print_breakdown (filter has_diadochi analyses) = (o3, r)"
    by (cases "for_each print_breakdown (filter has_diadochi analyses)")
  have "set o3 \<subseteq> Collect is_breakdown"
    using breakdowns_out [of _ "filter has_diadochi analyses"] fe by auto
  then show ?thesis
    using False fe
    by (intro exI [of _ "[P_breakdown_rule, P_breakdown_title, P_dash_rule] @ o3"])
       (auto simp: print_analysis_summary_def Let_def)
qed

text \<open>
  C2. For any list of analyses, the summary prints the warning that both formats were
  detected exactly when some analysis has \<open>diadochi_as_nations\<close> and some analysis, the
  same or another, has \<open>diadochi_as_dynasties\<close>; it prints the confirmation of the legacy
  format exactly when only the first holds, the confirmation of the modern format
  exactly when only the second holds, and so none of the three when neither holds.
\<close>

theorem both_formats_warning_iff:
  "(P_both_formats_warning \<in> set (fst (print_analysis_summary analyses)) \<longleftrightarrow>
      (\<exists>a\<in>set analyses. diadochi_as_nations a) \<and> (\<exists>a\<in>set analyses. diadochi_as_dynasties a))
   \<and> (P_all_legacy \<in> set (fst (print_analysis_summary analyses)) \<longleftrightarrow>
      (\<exists>a\<in>set analyses. diadochi_as_nations a) \<and> \<not> (\<exists>a\<in>set analyses. diadochi_as_dynasties a))
   \<and> (P_all_modern \<in> set (fst (print_analysis_summary analyses)) \<longleftrightarrow>
      (\<exists>a\<in>set analyses. diadochi_as_dynasties a) \<and> \<not> (\<exists>a\<in>set analyses. diadochi_as_nations a))"
proof -
  obtain o3 hd where o3: "set o3 \<subseteq> {P_breakdown_rule, P_breakdown_title, P_dash_rule} \<union> Collect is_breakdown"
    and hd: "hd = [P_summary_rule, P_summary_title, P_rule, P_total (length analyses),
               P_with_diadochi (length (filter has_diadochi analyses)),
               P_as_nations (length (filter diadochi_as_nations analyses)),
               P_as_dynasties (length (filter diadochi_as_dynasties analyses))]
              @ (if filter diadochi_as_nations analyses \<noteq> [] \<and> filter diadochi_as_dynasties analyses \<noteq> []
                 then [P_both_formats_warning, P_both_formats_note]
                 else if filter diadochi_as_nations analyses \<noteq> [] then [P_all_legacy]
                 else if filter diadochi_as_dynasties analyses \<noteq> [] then [P_all_modern]
                 else [])"
    and out: "fst (print_analysis_summary analyses) = hd @ o3"
    using summary_out_split [of analyses] by blast
  have no: "P_both_formats_warning \<notin> set o3" "P_all_legacy \<notin> set o3" "P_all_modern \<notin> set o3"
    using o3 by (auto simp: is_breakdown_def)
  have 1: "P_both_formats_warning \<in> set hd \<longleftrightarrow>
      (\<exists>a\<in>set analyses. diadochi_as_nations a) \<and> (\<exists>a\<in>set analyses. diadochi_as_dynasties a)"
    unfolding hd summary_head_cases by simp
  have 2: "P_all_legacy \<in> set hd \<longleftrightarrow>
      (\<exists>a\<in>set analyses. diadochi_as_nations a) \<and> \<not> (\<exists>a\<in>set analyses. diadochi_as_dynasties a)"
    unfolding hd summary_head_cases by simp
  have 3: "P_all_modern \<in> set hd \<longleftrightarrow>
      (\<exists>a\<in>set analyses. diadochi_as_dynasties a) \<and> \<not> (\<exists>a\<in>set analyses. diadochi_as_nations a)"
    unfolding hd summary_head_cases by simp
  show ?thesis
    unfolding out using no 1 2 3 by simp
qed

theorem both_formats_warning_iff_witness:
  "P_both_formats_warning \<in> set (fst (print_analysis_summary [legacy_analysis, modern_analysis]))
   \<and> P_all_legacy \<in> set (fst (print_analysis_summary [legacy_analysis]))
   \<and> P_all_modern \<in> set (fst (print_analysis_summary [modern_analysis]))
   \<and> P_all_modern \<notin> set (fst (print_analysis_summary []))"
  using both_formats_warning_iff [of "[legacy_analysis, modern_analysis]"]
    both_formats_warning_iff [of "[legacy_analysis]"]
    both_formats_warning_iff [of "[modern_analysis]"]
    both_formats_warning_iff [of "[]"]
  by (simp add: legacy_analysis_def modern_analysis_def)

subsection \<open>Discovery\<close>

lemma collect_out:
  "fst (collect_save_files env ps) = map P_path_not_exist (filter (\<lambda>p. \<not> path_exists env p) ps)"
  by (induction ps) (auto split: prod.splits)


lemma those_map_Some:
  "those (map f xs) = Some ks \<Longrightarrow> map f xs = map Some ks"
proof (induction xs arbitrary: ks)
  case Nil
  then show ?case by simp
next
  case (Cons x xs)
  then show ?case by (auto split: option.splits)
qed


lemma map_Some_zip:
  "map f xs = map Some ks \<Longrightarrow> (k, x) \<in> set (zip ks xs) \<Longrightarrow> f x = Some k"
proof (induction xs arbitrary: ks)
  case Nil
  then show ?case by simp
next
  case (Cons y ys)
  then show ?case by (cases ks) auto
qed

lemma find_collected:
  "fst (find_save_files env ps) = fst (collect_save_files env ps)"
  by (simp add: find_save_files_def split: prod.splits option.splits)

lemma find_Inr:
  assumes "snd (find_save_files env ps) = Inr files"
  shows "\<exists>ks. those (map (mtime_key env) (snd (collect_save_files env ps))) = Some ks
             \<and> files = map snd (sort_key fst (zip ks (snd (collect_save_files env ps))))"
  using assms by (auto simp: find_save_files_def split: prod.splits option.splits)

lemma find_sorted:
  assumes "snd (find_save_files env ps) = Inr files"
  shows "\<exists>ks. map (mtime_key env) files = map Some ks \<and> sorted ks"
proof -
  let ?c = "snd (collect_save_files env ps)"
  from find_Inr [OF assms] obtain ks
    where th: "those (map (mtime_key env) ?c) = Some ks"
      and files: "files = map snd (sort_key fst (zip ks ?c))" by blast
  let ?s = "sort_key fst (zip ks ?c)"
  have m: "map (mtime_key env) ?c = map Some ks" by (rule those_map_Some [OF th])
  have "\<forall>kp\<in>set ?s. mtime_key env (snd kp) = Some (fst kp)"
    using map_Some_zip [OF m] by auto
  then have "map (mtime_key env) files = map Some (map fst ?s)"
    by (simp add: files)
  moreover have "sorted (map fst ?s)" by (rule sorted_sort_key)
  ultimately show ?thesis by blast
qed

lemma find_set:
  assumes "snd (find_save_files env ps) = Inr files"
  shows "set files = set (snd (collect_save_files env ps))"
proof -
  let ?c = "snd (collect_save_files env ps)"
  from find_Inr [OF assms] obtain ks
    where th: "those (map (mtime_key env) ?c) = Some ks"
      and files: "files = map snd (sort_key fst (zip ks ?c))" by blast
  have "length ks = length ?c"
    using those_map_Some [OF th] by (metis length_map)
  then have "map snd (zip ks ?c) = ?c" by simp
  then have "set ?c = snd ` set (zip ks ?c)" by (metis set_map)
  then show ?thesis by (simp add: files)
qed



subsection \<open>The loop over the archives\<close>

lemma is_progress_simps:
  "is_progress (P_analyzing n)" "is_progress (P_status b k)" "is_progress P_failed"
  by (simp_all add: is_progress_def)

lemma failure_report_not_progress: "is_failure_report e \<Longrightarrow> \<not> is_progress e"
  by (cases e) (simp_all add: is_failure_report_def is_progress_def)

lemma analyze_out:
  "\<forall>e\<in>set (fst (analyze_save_file env p)). is_failure_report e"
  by (auto simp: analyze_save_file_def extract_xml_from_save_def read_or_report_def Let_def
        is_failure_report_def split: prod.splits option.splits if_splits list.splits)

lemma analyze_all_snd:
  "snd (analyze_all env files) = List.map_filter (\<lambda>p. snd (analyze_save_file env p)) files"
  by (induction files) (auto simp: List.map_filter_simps split: prod.splits option.splits)

lemma analyze_all_progress:
  "filter is_progress (fst (analyze_all env files)) = concat (map (progress_of env) files)"
proof (induction files)
  case Nil
  then show ?case by simp
next
  case (Cons p files)
  obtain o1 r where a: "analyze_save_file env p = (o1, r)" by (cases "analyze_save_file env p")
  obtain o2 as where all: "analyze_all env files = (o2, as)" by (cases "analyze_all env files")
  have "\<forall>e\<in>set o1. is_failure_report e" using analyze_out [of env p] a by simp
  then have "\<forall>e\<in>set o1. \<not> is_progress e"
    by (simp add: failure_report_not_progress)
  then have f: "filter is_progress o1 = []" by (simp add: filter_empty_conv)
  from Cons.IH all have ih: "filter is_progress o2 = concat (map (progress_of env) files)" by simp
  have hd: "progress_of env p =
      [P_analyzing (path_name p),
       (case r of Some analysis \<Rightarrow> P_status (has_diadochi analysis) (length (players analysis))
        | None \<Rightarrow> P_failed)]"
    by (simp add: progress_of_def a)
  show ?case
    by (cases r) (simp_all add: a all f ih hd is_progress_simps)
qed

lemma analyze_file_mtime:
  "snd (analyze_save_file env p) = Some a \<Longrightarrow> file_mtime a = mtime_key env p \<and> filepath a = p"
  by (auto dest!: analyze_save_file_Some
           simp: analyze_root_meta SaveFileAnalysis_init_def mtime_key_def path_exists_def)


subsection \<open>main\<close>

lemma find_nil: "find_save_files env [] = ([], Inr [])"
  by (simp add: find_save_files_def)

lemma main_no_paths:
  "resolve_search_paths env argv = [] \<Longrightarrow>
     main env argv = ([P_title, P_rule, P_no_save_dirs, P_usage], Inr 1)"
  by (simp add: main_def)


lemma main_no_files:
  "resolve_search_paths env argv = sp \<Longrightarrow> sp \<noteq> [] \<Longrightarrow>
   find_save_files env sp = (o2, Inr []) \<Longrightarrow>
     main env argv =
       ([P_title, P_rule, P_searching_in] @ map P_search_path sp @ o2 @ [P_no_save_files], Inr 1)"
  by (simp add: main_def)

lemma main_run:
  "resolve_search_paths env argv = sp \<Longrightarrow> sp \<noteq> [] \<Longrightarrow>
   find_save_files env sp = (o2, Inr files) \<Longrightarrow> files \<noteq> [] \<Longrightarrow>
     main env argv =
       ([P_title, P_rule, P_searching_in] @ map P_search_path sp @ o2
          @ [P_found (length files), P_analyzing_banner]
          @ fst (analyze_all env files)
          @ fst (print_analysis_summary (snd (analyze_all env files))),
        case snd (print_analysis_summary (snd (analyze_all env files))) of
          None \<Rightarrow> Inr 0 | Some e \<Rightarrow> Inl e)"
  by (simp add: main_def Let_def split: prod.splits option.splits)


lemma breakdown_not_progress: "is_breakdown e \<Longrightarrow> \<not> is_progress e"
  by (cases e) (simp_all add: is_breakdown_def is_progress_def)

lemma summary_not_progress:
  "filter is_progress (fst (print_analysis_summary analyses)) = []"
proof -
  obtain o3 where o3: "set o3 \<subseteq> {P_breakdown_rule, P_breakdown_title, P_dash_rule} \<union> Collect is_breakdown"
    and out: "fst (print_analysis_summary analyses) =
       ([P_summary_rule, P_summary_title, P_rule, P_total (length analyses),
               P_with_diadochi (length (filter has_diadochi analyses)),
               P_as_nations (length (filter diadochi_as_nations analyses)),
               P_as_dynasties (length (filter diadochi_as_dynasties analyses))]
              @ (if filter diadochi_as_nations analyses \<noteq> [] \<and> filter diadochi_as_dynasties analyses \<noteq> []
                 then [P_both_formats_warning, P_both_formats_note]
                 else if filter diadochi_as_nations analyses \<noteq> [] then [P_all_legacy]
                 else if filter diadochi_as_dynasties analyses \<noteq> [] then [P_all_modern]
                 else [])) @ o3"
    using summary_out_split [of analyses] by blast
  have "\<forall>e\<in>set o3. \<not> is_progress e"
    using o3 breakdown_not_progress by (auto simp: is_progress_def)
  then have "filter is_progress o3 = []" by (simp add: filter_empty_conv)
  then show ?thesis
    unfolding out by (simp add: is_progress_def)
qed


lemma find_not_progress: "filter is_progress (fst (find_save_files env ps)) = []"
  by (simp add: find_collected collect_out filter_empty_conv is_progress_def)

lemma main_progress:
  assumes "snd (find_save_files env (resolve_search_paths env argv)) = Inr files"
  shows "filter is_progress (fst (main env argv)) = concat (map (progress_of env) files)"
proof (cases "resolve_search_paths env argv = []")
  case True
  with assms have "files = []" by (simp add: find_nil)
  then show ?thesis by (simp add: main_no_paths [OF True] is_progress_def)
next
  case False
  obtain o2 where f: "find_save_files env (resolve_search_paths env argv) = (o2, Inr files)"
    using assms by (cases "find_save_files env (resolve_search_paths env argv)") simp
  have o2: "filter is_progress o2 = []"
    using find_not_progress [of env "resolve_search_paths env argv"] f by simp
  have sp: "filter is_progress (map P_search_path (resolve_search_paths env argv)) = []"
    by (simp add: filter_empty_conv is_progress_def)
  show ?thesis
  proof (cases "files = []")
    case True
    then show ?thesis
      using main_no_files [OF refl False f [unfolded True]] o2 sp by (simp add: is_progress_def)
  next
    case nonempty: False
    show ?thesis
      unfolding main_run [OF refl False f nonempty]
      by (simp add: o2 sp summary_not_progress analyze_all_progress is_progress_def)
  qed
qed




subsection \<open>Discovery order, explicit paths and the exit code\<close>

lemma analyze_all_filepaths:
  "map filepath (snd (analyze_all env files))
     = filter (\<lambda>p. snd (analyze_save_file env p) \<noteq> None) files"
proof (induction files)
  case Nil
  then show ?case by simp
next
  case (Cons p files)
  show ?case
  proof (cases "snd (analyze_save_file env p)")
    case None
    then show ?thesis
      using Cons.IH unfolding analyze_all_snd by (simp add: List.map_filter_simps)
  next
    case (Some a)
    then show ?thesis
      using Cons.IH analyze_file_mtime [OF Some] unfolding analyze_all_snd
      by (simp add: List.map_filter_simps)
  qed
qed

lemma sample_resolve: "resolve_search_paths sample_env [[''saves'']] = [[''saves'']]"
  by (simp add: resolve_search_paths_def)

lemma sample_progress:
  "concat (map (progress_of sample_env)
     [[''saves'', ''b.zip''], [''saves'', ''c.zip''], [''saves'', ''a.zip'']])
   = [P_analyzing ''b.zip'', P_status False 1, P_analyzing ''c.zip'', P_failed,
      P_analyzing ''a.zip'', P_status True 1]"
  by (simp add: progress_of_def sample_analyze_a sample_analyze_b sample_analyze_c
        sample_root_a sample_root_b path_name_def legacy_analysis_def)

text \<open>
  C7. Whenever discovery returns a list of archives, every archive of the list has a
  modification time and the list is in ascending order of these times; it holds the
  paths the loop over the search paths collected; the analyses handed to the summary
  are those of the archives that could be analysed, in the same order; and the progress
  lines of \<open>main\<close> are those of the archives of the list, in the order of the list.
\<close>

theorem discovery_sorted_by_mtime:
  assumes "snd (find_save_files env search_paths) = Inr files"
  shows "(\<exists>ks. map (\<lambda>p. map_option st_mtime (stat env p)) files = map Some ks \<and> sorted ks)
       \<and> set files = set (snd (collect_save_files env search_paths))
       \<and> map filepath (snd (analyze_all env files))
           = filter (\<lambda>p. snd (analyze_save_file env p) \<noteq> None) files
       \<and> (search_paths = resolve_search_paths env argv \<longrightarrow>
            filter is_progress (fst (main env argv)) = concat (map (progress_of env) files))"
proof -
  have "\<exists>ks. map (\<lambda>p. map_option st_mtime (stat env p)) files = map Some ks \<and> sorted ks"
    using find_sorted [OF assms] by (simp add: mtime_key_def [abs_def])
  moreover note find_set [OF assms] analyze_all_filepaths [of env files]
  moreover have "search_paths = resolve_search_paths env argv \<longrightarrow>
      filter is_progress (fst (main env argv)) = concat (map (progress_of env) files)"
    using assms main_progress [of env argv files] by blast
  ultimately show ?thesis by blast
qed

theorem discovery_sorted_by_mtime_witness:
  "snd (find_save_files sample_env [[''saves'']])
     = Inr [[''saves'', ''b.zip''], [''saves'', ''c.zip''], [''saves'', ''a.zip'']]
   \<and> map (\<lambda>p. map_option st_mtime (stat sample_env p))
        [[''saves'', ''b.zip''], [''saves'', ''c.zip''], [''saves'', ''a.zip'']]
       = map Some [100, 200, 300]
   \<and> filter is_progress (fst (main sample_env [[''saves'']]))
       = [P_analyzing ''b.zip'', P_status False 1, P_analyzing ''c.zip'', P_failed,
          P_analyzing ''a.zip'', P_status True 1]"
proof -
  have h: "snd (find_save_files sample_env [[''saves'']])
     = Inr [[''saves'', ''b.zip''], [''saves'', ''c.zip''], [''saves'', ''a.zip'']]"
    by (simp add: sample_find)
  have k: "map (\<lambda>p. map_option st_mtime (stat sample_env p))
        [[''saves'', ''b.zip''], [''saves'', ''c.zip''], [''saves'', ''a.zip'']]
       = map Some [100, 200, 300]"
    by (simp add: sample_env_def sample_stat_def)
  from discovery_sorted_by_mtime [OF h, of "[[''saves'']]"] sample_resolve
  have "filter is_progress (fst (main sample_env [[''saves'']]))
      = concat (map (progress_of sample_env)
          [[''saves'', ''b.zip''], [''saves'', ''c.zip''], [''saves'', ''a.zip'']])"
    by simp
  with h k show ?thesis by (simp only: sample_progress)
qed






end
